theory Spec2Isabelle
  imports Complex_Main "HOL-Library.Multiset" "HOL-Library.Sublist"
begin

section \<open>Python values\<close>

text \<open>
  The three scripts compute on Python floats. Prices, quantities and the sums and
  quotients of them are modelled by exact real numbers (rounding and overflow of the
  binary format are outside the model). The scripts themselves introduce
  \<^verbatim>\<open>float('inf')\<close> for ratios, and a quotient of two infinities is Python's
  \<^verbatim>\<open>nan\<close>, so a ratio is a \<open>pyfloat\<close>: a real number, one of the two
  infinities, or NaN. Both signed zeros are \<open>Fin 0\<close>; they compare equal in Python.
\<close>

datatype py_error = ValueError | TypeError | IndexError | ZeroDivisionError

datatype pyfloat = Fin real | PInf | NInf | NaN

text \<open>Python's \<^verbatim>\<open>a < b\<close> on floats: every comparison with NaN is false.\<close>

fun fl_lt :: "pyfloat \<Rightarrow> pyfloat \<Rightarrow> bool" where
  "fl_lt NaN _ = False"
| "fl_lt _ NaN = False"
| "fl_lt (Fin a) (Fin b) = (a < b)"
| "fl_lt (Fin a) PInf = True"
| "fl_lt (Fin a) NInf = False"
| "fl_lt PInf _ = False"
| "fl_lt NInf NInf = False"
| "fl_lt NInf _ = True"

definition fl_gt :: "pyfloat \<Rightarrow> pyfloat \<Rightarrow> bool" where
  "fl_gt a b = fl_lt b a"

text \<open>
  Python's \<^verbatim>\<open>a / b\<close> on floats: a zero divisor raises ZeroDivisionError whatever the
  dividend is; otherwise the IEEE result.
\<close>

fun fl_div :: "pyfloat \<Rightarrow> pyfloat \<Rightarrow> py_error + pyfloat" where
  "fl_div a (Fin b) =
     (if b = 0 then Inl ZeroDivisionError
      else Inr (case a of
                  Fin x \<Rightarrow> Fin (x / b)
                | PInf \<Rightarrow> (if 0 < b then PInf else NInf)
                | NInf \<Rightarrow> (if 0 < b then NInf else PInf)
                | NaN \<Rightarrow> NaN))"
| "fl_div (Fin x) PInf = Inr (Fin 0)"
| "fl_div (Fin x) NInf = Inr (Fin 0)"
| "fl_div a b = Inr NaN"

text \<open>
  The venue sends prices and quantities as JSON strings. A field is represented by what
  Python's \<^verbatim>\<open>float(p)\<close> does with it: \<open>Numeric r\<close> is a field that converts to the
  number \<open>r\<close>; \<open>Malformed\<close> is a string that is not a number, on which \<^verbatim>\<open>float\<close>
  raises ValueError; \<open>Null\<close> is a JSON value that is neither a string nor a number, such
  as \<^verbatim>\<open>null\<close>, on which \<^verbatim>\<open>float\<close> raises TypeError.
\<close>

datatype raw = Numeric real | Malformed | Null

fun py_float :: "raw \<Rightarrow> py_error + real" where
  "py_float (Numeric r) = Inr r"
| "py_float Malformed = Inl ValueError"
| "py_float Null = Inl TypeError"

text \<open>\<^verbatim>\<open>[float(p) for p in fields]\<close>: the first field that fails raises.\<close>

fun float_all :: "raw list \<Rightarrow> py_error + real list" where
  "float_all [] = Inr []"
| "float_all (p # ps) =
     (case py_float p of
        Inl e \<Rightarrow> Inl e
      | Inr r \<Rightarrow> (case float_all ps of Inl e \<Rightarrow> Inl e | Inr rs \<Rightarrow> Inr (r # rs)))"

text \<open>\<^verbatim>\<open>xs[-k]\<close> for \<open>k \<ge> 1\<close>: the k-th element from the end, IndexError when there is none.\<close>

definition from_end :: "'a list \<Rightarrow> nat \<Rightarrow> py_error + 'a" where
  "from_end xs k =
     (if 1 \<le> k \<and> k \<le> length xs then Inr (xs ! (length xs - k)) else Inl IndexError)"

text \<open>\<^verbatim>\<open>row[1:5]\<close>: a slice never raises, it is shorter when the row is.\<close>

definition slice_1_5 :: "'a list \<Rightarrow> 'a list" where
  "slice_1_5 row = take 4 (drop 1 row)"

text \<open>
  Python 3's \<^verbatim>\<open>int(round(x))\<close>: the nearest integer, a tie going to the even one.
\<close>

definition py_round :: "real \<Rightarrow> int" where
  "py_round x =
     (let f = \<lfloor>x\<rfloor>; d = x - of_int f
      in if d < 1 / 2 then f else if 1 / 2 < d then f + 1 else if even f then f else f + 1)"

text \<open>
  \<^verbatim>\<open>xs.sort(key=key, reverse=reverse)\<close>. Python documents the sort as stable, also with
  \<^verbatim>\<open>reverse=True\<close>, and it compares keys with \<^verbatim>\<open><\<close> only. It is modelled by a
  stable insertion sort over the comparison \<open>lt\<close>.
\<close>

fun sort_insert :: "('k \<Rightarrow> 'k \<Rightarrow> bool) \<Rightarrow> ('a \<Rightarrow> 'k) \<Rightarrow> bool \<Rightarrow> 'a \<Rightarrow> 'a list \<Rightarrow> 'a list" where
  "sort_insert lt key reverse x [] = [x]"
| "sort_insert lt key reverse x (y # ys) =
     (if (if reverse then lt (key x) (key y) else lt (key y) (key x))
      then y # sort_insert lt key reverse x ys
      else x # y # ys)"

definition list_sort :: "('k \<Rightarrow> 'k \<Rightarrow> bool) \<Rightarrow> ('a \<Rightarrow> 'k) \<Rightarrow> bool \<Rightarrow> 'a list \<Rightarrow> 'a list" where
  "list_sort lt key reverse xs = foldr (sort_insert lt key reverse) xs []"

text \<open>\<^verbatim>\<open>xs.index(x)\<close> where \<open>x\<close> is in \<open>xs\<close>: the position of its first occurrence.\<close>

fun first_index :: "'a list \<Rightarrow> 'a \<Rightarrow> nat" where
  "first_index [] x = 0"
| "first_index (y # ys) x = (if x = y then 0 else Suc (first_index ys x))"

text \<open>\<^verbatim>\<open>s.upper()\<close> on ASCII text.\<close>

definition upper_char :: "char \<Rightarrow> char" where
  "upper_char ch =
     (case map_of (zip ''abcdefghijklmnopqrstuvwxyz'' ''ABCDEFGHIJKLMNOPQRSTUVWXYZ'') ch of
        None \<Rightarrow> ch
      | Some u \<Rightarrow> u)"

definition str_upper :: "string \<Rightarrow> string" where
  "str_upper s = map upper_char s"

section \<open>GIT_SwingHighRejectionDetector.py\<close>

record candle =
  c_open :: real
  c_high :: real
  c_low :: real
  c_close :: real

text \<open>\<^verbatim>\<open>o, h, l, c = values\<close>: unpacking a list whose length is not 4 raises ValueError.\<close>

fun unpack4 :: "real list \<Rightarrow> py_error + candle" where
  "unpack4 [a, b, c, d] = Inr \<lparr>c_open = a, c_high = b, c_low = c, c_close = d\<rparr>"
| "unpack4 _ = Inl ValueError"

text \<open>
  What \<^verbatim>\<open>check_conditions\<close> prints when the pattern is confirmed: the symbol and the
  close of the live candle. The capture time is read from the clock and the URL is built
  from the symbol; neither is modelled, nor is the progress counter.
\<close>

record pattern_signal =
  sig_symbol :: string
  sig_price :: real

text \<open>
  The \<^verbatim>\<open>try\<close> block of \<^verbatim>\<open>check_conditions\<close>: the fields 1 to 4 of the last, the
  second to last and the third to last row, in that order, each converted with
  \<^verbatim>\<open>float\<close>.
\<close>

definition parse_candles ::
  "raw list list \<Rightarrow> py_error + (real list \<times> real list \<times> real list)" where
  "parse_candles klines =
     (case from_end klines 1 of Inl e \<Rightarrow> Inl e | Inr r1 \<Rightarrow>
      case float_all (slice_1_5 r1) of Inl e \<Rightarrow> Inl e | Inr current_candle \<Rightarrow>
      case from_end klines 2 of Inl e \<Rightarrow> Inl e | Inr r2 \<Rightarrow>
      case float_all (slice_1_5 r2) of Inl e \<Rightarrow> Inl e | Inr mid_candle \<Rightarrow>
      case from_end klines 3 of Inl e \<Rightarrow> Inl e | Inr r3 \<Rightarrow>
      case float_all (slice_1_5 r3) of Inl e \<Rightarrow> Inl e | Inr left_candle \<Rightarrow>
      Inr (current_candle, mid_candle, left_candle))"

text \<open>
  \<^verbatim>\<open>check_conditions(symbol, total_symbols)\<close>, with the answer of
  \<^verbatim>\<open>get_candle_data\<close> as an argument: \<open>None\<close> when the request failed, the rows
  otherwise. The result is \<open>Inr None\<close> when the function returns without an alert,
  \<open>Inr (Some s)\<close> when it prints the alert \<open>s\<close>, and \<open>Inl e\<close> when it raises \<open>e\<close>.
\<close>

definition check_conditions ::
  "string \<Rightarrow> raw list list option \<Rightarrow> py_error + pattern_signal option" where
  "check_conditions symbol klines_opt =
     (case klines_opt of
        None \<Rightarrow> Inr None
      | Some klines \<Rightarrow>
          if klines = [] \<or> length klines < 3 then Inr None
          else
            (case parse_candles klines of
               Inl e \<Rightarrow> (if e = ValueError \<or> e = IndexError then Inr None else Inl e)
             | Inr (current_candle, mid_candle, left_candle) \<Rightarrow>
                 (case unpack4 current_candle of Inl e \<Rightarrow> Inl e | Inr cur \<Rightarrow>
                  case unpack4 mid_candle of Inl e \<Rightarrow> Inl e | Inr mid \<Rightarrow>
                  case unpack4 left_candle of Inl e \<Rightarrow> Inl e | Inr left \<Rightarrow>
                    (let rule1 = c_close cur < c_open cur;
                         rule2 = c_close left > c_open left;
                         rule3 = c_high left < c_high mid;
                         mid_candle_body_top = max (c_open mid) (c_close mid);
                         rule4 = mid_candle_body_top < c_high left;
                         rule5 = c_open left < c_low mid;
                         rule6 = c_high cur < c_high mid;
                         mid_candle_body_size = \<bar>c_open mid - c_close mid\<bar>;
                         left_candle_body_size = \<bar>c_open left - c_close left\<bar>;
                         rule7 = mid_candle_body_size < left_candle_body_size
                     in if list_all (\<lambda>r. r) [rule1, rule2, rule3, rule4, rule5, rule6, rule7]
                        then Inr (Some \<lparr>sig_symbol = symbol, sig_price = c_close cur\<rparr>)
                        else Inr None))))"

text \<open>
  One scan of \<^verbatim>\<open>main\<close>: \<^verbatim>\<open>executor.map(check_conditions, symbols, ...)\<close> runs one task
  per symbol; \<open>candles s\<close> is what the venue answers for \<open>s\<close>. The iterator that
  \<^verbatim>\<open>executor.map\<close> returns is never read, so an exception raised by a task stays in
  its future. The alerts are listed in the order of the symbols; the order in which the
  tasks print them is not modelled.
\<close>

definition scan_outcomes ::
  "(string \<Rightarrow> raw list list option) \<Rightarrow> string list \<Rightarrow>
     (string \<times> (py_error + pattern_signal option)) list" where
  "scan_outcomes candles symbols = map (\<lambda>s. (s, check_conditions s (candles s))) symbols"

definition scan_alerts ::
  "(string \<Rightarrow> raw list list option) \<Rightarrow> string list \<Rightarrow> pattern_signal list" where
  "scan_alerts candles symbols =
     List.map_filter (\<lambda>(s, r). case r of Inr (Some a) \<Rightarrow> Some a | _ \<Rightarrow> None)
       (scan_outcomes candles symbols)"

section \<open>GIT_BinanceOrderBookAnalyzer.py and GITOrderFlowImbalanceAnalyzer.py\<close>

text \<open>
  The two scripts share the functions below word for word, apart from the target count
  and the depth of the order book they request.
\<close>

subsection \<open>Evidence\<close>

record depth =
  bids :: "(raw \<times> raw) list"
  asks :: "(raw \<times> raw) list"

record trade =
  t_p :: raw
  t_q :: raw
  t_m :: bool

text \<open>\<^verbatim>\<open>sum(float(p) * float(q) for p, q in levels)\<close>, the running total first.\<close>

fun notional_sum :: "real \<Rightarrow> (raw \<times> raw) list \<Rightarrow> py_error + real" where
  "notional_sum subtotal [] = Inr subtotal"
| "notional_sum subtotal ((p, q) # levels) =
     (case py_float p of Inl e \<Rightarrow> Inl e | Inr a \<Rightarrow>
      case py_float q of Inl e \<Rightarrow> Inl e | Inr b \<Rightarrow>
      notional_sum (subtotal + a * b) levels)"

text \<open>
  \<^verbatim>\<open>calculate_passive_order_value\<close>, with the answer of \<^verbatim>\<open>api_get\<close> as its argument:
  \<open>None\<close> when the request failed. A key that the answer lacks reads as the empty list.
\<close>

definition calculate_passive_order_value :: "depth option \<Rightarrow> py_error + real \<times> real" where
  "calculate_passive_order_value response =
     (case response of
        None \<Rightarrow> Inr (0, 0)
      | Some book \<Rightarrow>
          (case notional_sum 0 (bids book) of Inl e \<Rightarrow> Inl e | Inr total_bids_value \<Rightarrow>
           case notional_sum 0 (asks book) of Inl e \<Rightarrow> Inl e | Inr total_asks_value \<Rightarrow>
           Inr (total_bids_value, total_asks_value)))"

text \<open>The loop of \<^verbatim>\<open>calculate_active_trade_value\<close> over the trades.\<close>

fun taker_totals :: "real \<Rightarrow> real \<Rightarrow> trade list \<Rightarrow> py_error + real \<times> real" where
  "taker_totals total_taker_buy_value total_taker_sell_value [] =
     Inr (total_taker_buy_value, total_taker_sell_value)"
| "taker_totals total_taker_buy_value total_taker_sell_value (tr # trades) =
     (case py_float (t_p tr) of Inl e \<Rightarrow> Inl e | Inr p \<Rightarrow>
      case py_float (t_q tr) of Inl e \<Rightarrow> Inl e | Inr q \<Rightarrow>
      (let notional_value = p * q
       in if \<not> t_m tr
          then taker_totals (total_taker_buy_value + notional_value) total_taker_sell_value trades
          else taker_totals total_taker_buy_value (total_taker_sell_value + notional_value) trades))"

definition calculate_active_trade_value :: "trade list option \<Rightarrow> py_error + real \<times> real" where
  "calculate_active_trade_value response =
     (case response of
        None \<Rightarrow> Inr (0, 0)
      | Some trades \<Rightarrow> if trades = [] then Inr (0, 0) else taker_totals 0 0 trades)"

subsection \<open>Per-symbol metrics\<close>

record coin_data =
  coin :: string
  limitBuy :: int
  limitSell :: int
  marketBuy :: int
  marketSell :: int
  limit_bs_ratio :: pyfloat
  market_bs_ratio :: pyfloat

text \<open>\<^verbatim>\<open>buy / sell if sell > 0 else float('inf')\<close>, the expression of both ratios.\<close>

definition buy_sell_ratio :: "real \<Rightarrow> real \<Rightarrow> py_error + pyfloat" where
  "buy_sell_ratio buy_value sell_value =
     (if sell_value > 0 then fl_div (Fin buy_value) (Fin sell_value) else Inr PInf)"

definition fetch_and_process_symbol ::
  "string \<Rightarrow> depth option \<Rightarrow> trade list option \<Rightarrow> py_error + coin_data" where
  "fetch_and_process_symbol symbol book trades =
     (case calculate_passive_order_value book of Inl e \<Rightarrow> Inl e
      | Inr (limit_buy_value, limit_sell_value) \<Rightarrow>
     (case calculate_active_trade_value trades of Inl e \<Rightarrow> Inl e
      | Inr (market_buy_value, market_sell_value) \<Rightarrow>
     (case buy_sell_ratio limit_buy_value limit_sell_value of Inl e \<Rightarrow> Inl e
      | Inr limit_ratio \<Rightarrow>
     (case buy_sell_ratio market_buy_value market_sell_value of Inl e \<Rightarrow> Inl e
      | Inr market_ratio \<Rightarrow>
        Inr \<lparr>coin = symbol, limitBuy = py_round limit_buy_value,
             limitSell = py_round limit_sell_value, marketBuy = py_round market_buy_value,
             marketSell = py_round market_sell_value, limit_bs_ratio = limit_ratio,
             market_bs_ratio = market_ratio\<rparr>))))"

subsection \<open>Ranking\<close>

record setup_data = coin_data +
  limit_market_ratio :: pyfloat
  market_limit_ratio :: pyfloat

text \<open>The first loop of \<^verbatim>\<open>display_trade_setups\<close>: two more keys for each record.\<close>

definition add_ratios :: "coin_data \<Rightarrow> py_error + setup_data" where
  "add_ratios c =
     (case (if fl_gt (market_bs_ratio c) (Fin 0)
            then fl_div (limit_bs_ratio c) (market_bs_ratio c) else Inr PInf) of
        Inl e \<Rightarrow> Inl e
      | Inr lm \<Rightarrow>
     (case (if fl_gt (limit_bs_ratio c) (Fin 0)
            then fl_div (market_bs_ratio c) (limit_bs_ratio c) else Inr PInf) of
        Inl e \<Rightarrow> Inl e
      | Inr ml \<Rightarrow>
        Inr \<lparr>coin = coin c, limitBuy = limitBuy c, limitSell = limitSell c,
             marketBuy = marketBuy c, marketSell = marketSell c,
             limit_bs_ratio = limit_bs_ratio c, market_bs_ratio = market_bs_ratio c,
             limit_market_ratio = lm, market_limit_ratio = ml\<rparr>))"

fun add_ratios_all :: "coin_data list \<Rightarrow> py_error + setup_data list" where
  "add_ratios_all [] = Inr []"
| "add_ratios_all (c # cs) =
     (case add_ratios c of Inl e \<Rightarrow> Inl e | Inr c' \<Rightarrow>
      case add_ratios_all cs of Inl e \<Rightarrow> Inl e | Inr cs' \<Rightarrow> Inr (c' # cs'))"

definition potential_short :: "'a coin_data_scheme \<Rightarrow> bool" where
  "potential_short c = (fl_gt (limit_bs_ratio c) (Fin 1) \<and> fl_lt (market_bs_ratio c) (Fin 1))"

definition potential_long :: "'a coin_data_scheme \<Rightarrow> bool" where
  "potential_long c = (fl_lt (limit_bs_ratio c) (Fin 1) \<and> fl_gt (market_bs_ratio c) (Fin 1))"

text \<open>
  \<^verbatim>\<open>display_trade_setups\<close>: the rows of the table of potential shorts and of the table
  of potential longs.
\<close>

definition display_trade_setups ::
  "coin_data list \<Rightarrow> py_error + setup_data list \<times> setup_data list" where
  "display_trade_setups all_coin_data =
     (case add_ratios_all all_coin_data of
        Inl e \<Rightarrow> Inl e
      | Inr cs \<Rightarrow>
          (let potential_shorts = list_sort fl_lt limit_market_ratio True (filter potential_short cs);
               potential_longs = list_sort fl_lt market_limit_ratio True (filter potential_long cs)
           in Inr (potential_shorts, potential_longs)))"

subsection \<open>The universe and the scan of \<^verbatim>\<open>main\<close>\<close>

text \<open>A record of the ranked source is a dictionary; only its key \<^verbatim>\<open>symbol\<close> is read.\<close>

type_synonym cmc_coin = "string \<rightharpoonup> string"

definition binance_symbol_of :: "cmc_coin \<Rightarrow> string" where
  "binance_symbol_of coin_data =
     str_upper (case coin_data ''symbol'' of None \<Rightarrow> [] | Some s \<Rightarrow> s) @ ''USDT''"

text \<open>The matching loop of \<^verbatim>\<open>main\<close>, with the list built so far.\<close>

fun match_loop :: "nat \<Rightarrow> string set \<Rightarrow> string list \<Rightarrow> cmc_coin list \<Rightarrow> string list" where
  "match_loop FINAL_COIN_COUNT binance_symbols_set coins_to_analyze [] = coins_to_analyze"
| "match_loop FINAL_COIN_COUNT binance_symbols_set coins_to_analyze (coin_data # cmc_data) =
     (let binance_symbol = binance_symbol_of coin_data;
          coins_to_analyze' =
            (if binance_symbol \<in> binance_symbols_set
             then coins_to_analyze @ [binance_symbol] else coins_to_analyze)
      in if length coins_to_analyze' = FINAL_COIN_COUNT then coins_to_analyze'
         else match_loop FINAL_COIN_COUNT binance_symbols_set coins_to_analyze' cmc_data)"

definition match_coins :: "nat \<Rightarrow> string set \<Rightarrow> cmc_coin list \<Rightarrow> string list" where
  "match_coins FINAL_COIN_COUNT binance_symbols_set cmc_data =
     match_loop FINAL_COIN_COUNT binance_symbols_set [] cmc_data"

text \<open>
  The collection loop of \<^verbatim>\<open>main\<close>: the futures are read in the order \<open>completed\<close> in
  which they finish; a task that raised is reported and leaves no result.
\<close>

definition collect_results ::
  "(string \<Rightarrow> depth option) \<Rightarrow> (string \<Rightarrow> trade list option) \<Rightarrow> string list \<Rightarrow> coin_data list" where
  "collect_results depth_of trades_of completed =
     List.map_filter
       (\<lambda>symbol. case fetch_and_process_symbol symbol (depth_of symbol) (trades_of symbol) of
                   Inl e \<Rightarrow> None | Inr result \<Rightarrow> Some result)
       completed"

text \<open>
  \<^verbatim>\<open>current_run_data.sort(key=lambda x: coins_to_analyze.index(x['coin']))\<close>. The keys are
  computed before any element moves, and \<^verbatim>\<open>index\<close> raises ValueError for a value that
  is not in the list.
\<close>

definition sort_by_rank :: "string list \<Rightarrow> coin_data list \<Rightarrow> py_error + coin_data list" where
  "sort_by_rank coins_to_analyze current_run_data =
     (if list_all (\<lambda>x. coin x \<in> set coins_to_analyze) current_run_data
      then Inr (list_sort (<) (\<lambda>x. first_index coins_to_analyze (coin x)) False current_run_data)
      else Inl ValueError)"

definition run_scan ::
  "(string \<Rightarrow> depth option) \<Rightarrow> (string \<Rightarrow> trade list option) \<Rightarrow> string list \<Rightarrow> string list \<Rightarrow>
     py_error + setup_data list \<times> setup_data list" where
  "run_scan depth_of trades_of coins_to_analyze completed =
     (case sort_by_rank coins_to_analyze (collect_results depth_of trades_of completed) of
        Inl e \<Rightarrow> Inl e
      | Inr current_run_data \<Rightarrow> display_trade_setups current_run_data)"

section \<open>The words of the specification\<close>

text \<open>
  The rows of a candle window as the venue sends them: a timestamp, the four prices as
  strings that parse, and whatever follows (volume and so on).
\<close>

definition kline_row :: "raw \<Rightarrow> candle \<Rightarrow> raw list \<Rightarrow> raw list" where
  "kline_row ts cd rest =
     ts # Numeric (c_open cd) # Numeric (c_high cd) # Numeric (c_low cd)
        # Numeric (c_close cd) # rest"

text \<open>
  The seven rules in the words of the specification, over a window of a left, a middle
  and a current candle.
\<close>

record candle_window =
  w_left :: candle
  w_middle :: candle
  w_current :: candle

definition current_is_bearish :: "candle_window \<Rightarrow> bool" where
  "current_is_bearish w = (c_close (w_current w) < c_open (w_current w))"

definition left_is_bullish :: "candle_window \<Rightarrow> bool" where
  "left_is_bullish w = (c_close (w_left w) > c_open (w_left w))"

definition middle_high_exceeds_left_high :: "candle_window \<Rightarrow> bool" where
  "middle_high_exceeds_left_high w = (c_high (w_middle w) > c_high (w_left w))"

definition middle_body_top_below_left_high :: "candle_window \<Rightarrow> bool" where
  "middle_body_top_below_left_high w =
     (max (c_open (w_middle w)) (c_close (w_middle w)) < c_high (w_left w))"

definition middle_low_above_left_open :: "candle_window \<Rightarrow> bool" where
  "middle_low_above_left_open w = (c_low (w_middle w) > c_open (w_left w))"

definition current_high_below_middle_high :: "candle_window \<Rightarrow> bool" where
  "current_high_below_middle_high w = (c_high (w_current w) < c_high (w_middle w))"

definition middle_body_smaller_than_left_body :: "candle_window \<Rightarrow> bool" where
  "middle_body_smaller_than_left_body w =
     (\<bar>c_open (w_middle w) - c_close (w_middle w)\<bar> < \<bar>c_open (w_left w) - c_close (w_left w)\<bar>)"

definition seven_rules :: "candle_window \<Rightarrow> bool list" where
  "seven_rules w =
     [current_is_bearish w, left_is_bullish w, middle_high_exceeds_left_high w,
      middle_body_top_below_left_high w, middle_low_above_left_open w,
      current_high_below_middle_high w, middle_body_smaller_than_left_body w]"

text \<open>The rows that \<^verbatim>\<open>get_candle_data\<close> returns when the window is the last three candles.\<close>

definition klines_of ::
  "raw list list \<Rightarrow> raw \<Rightarrow> raw list \<Rightarrow> candle_window \<Rightarrow> raw list list" where
  "klines_of older ts rest w =
     older @ [kline_row ts (w_left w) rest, kline_row ts (w_middle w) rest,
              kline_row ts (w_current w) rest]"



text \<open>The identifiers of the candidates that the venue trades, in the candidates' order.\<close>

abbreviation matches :: "string set \<Rightarrow> cmc_coin list \<Rightarrow> string list" where
  "matches S cands \<equiv> filter (\<lambda>s. s \<in> S) (map binance_symbol_of cands)"

section \<open>Example inputs\<close>

text \<open>A confirmed window, and the same window with a current candle that closes where it opened.\<close>

definition example_window :: candle_window where
  "example_window =
     \<lparr>w_left = \<lparr>c_open = 10, c_high = 13, c_low = 9, c_close = 12\<rparr>,
      w_middle = \<lparr>c_open = 12, c_high = 15, c_low = 11, c_close = 11\<rparr>,
      w_current = \<lparr>c_open = 11, c_high = 11, c_low = 9, c_close = 9\<rparr>\<rparr>"

definition doji_window :: candle_window where
  "doji_window =
     \<lparr>w_left = \<lparr>c_open = 10, c_high = 13, c_low = 9, c_close = 12\<rparr>,
      w_middle = \<lparr>c_open = 12, c_high = 15, c_low = 11, c_close = 11\<rparr>,
      w_current = \<lparr>c_open = 11, c_high = 11, c_low = 9, c_close = 11\<rparr>\<rparr>"



text \<open>Feeds of the flow scan: requests that fail, one taker sell, a book with one bid.\<close>

definition failed_depth :: "string \<Rightarrow> depth option" where
  "failed_depth symbol = None"

definition failed_trades :: "string \<Rightarrow> trade list option" where
  "failed_trades symbol = None"

definition one_taker_sell :: "string \<Rightarrow> trade list option" where
  "one_taker_sell symbol = Some [\<lparr>t_p = Numeric 1, t_q = Numeric 1, t_m = True\<rparr>]"

definition one_bid :: "string \<Rightarrow> depth option" where
  "one_bid symbol = Some \<lparr>bids = [(Numeric 2, Numeric 3)], asks = []\<rparr>"

text \<open>Candidates of the ranked source.\<close>

definition btc_twice :: "cmc_coin list" where
  "btc_twice = [[''symbol'' \<mapsto> ''btc''], [''symbol'' \<mapsto> ''BTC'']]"

definition btc_eth :: "cmc_coin list" where
  "btc_eth = [[''symbol'' \<mapsto> ''BTC''], [''symbol'' \<mapsto> ''DOGE''], [''symbol'' \<mapsto> ''ETH'']]"

text \<open>Metrics: one on the boundary of both filters, and three potential shorts of which
  the last two have the same sort key.\<close>

definition boundary_coin :: coin_data where
  "boundary_coin =
     \<lparr>coin = ''AUSDT'', limitBuy = 5, limitSell = 5, marketBuy = 4, marketSell = 2,
      limit_bs_ratio = Fin 1, market_bs_ratio = Fin 2\<rparr>"

definition tied_shorts :: "coin_data list" where
  "tied_shorts =
     [\<lparr>coin = ''CUSDT'', limitBuy = 4, limitSell = 2, marketBuy = 1, marketSell = 2,
       limit_bs_ratio = Fin 2, market_bs_ratio = Fin (1 / 2)\<rparr>,
      \<lparr>coin = ''AUSDT'', limitBuy = 0, limitSell = 0, marketBuy = 0, marketSell = 1,
       limit_bs_ratio = PInf, market_bs_ratio = Fin 0\<rparr>,
      \<lparr>coin = ''BUSDT'', limitBuy = 0, limitSell = 0, marketBuy = 0, marketSell = 1,
       limit_bs_ratio = PInf, market_bs_ratio = Fin 0\<rparr>]"

section \<open>The pattern detector: proofs\<close>

lemma float_all_Numeric: "float_all (map Numeric rs) = Inr rs"
  by (induction rs) simp_all

lemma float_slice_kline_row:
  "float_all (slice_1_5 (kline_row ts cd rest)) =
     Inr [c_open cd, c_high cd, c_low cd, c_close cd]"
  by (simp add: slice_1_5_def kline_row_def)

lemma from_end_klines_of:
  "from_end (klines_of older ts rest w) (Suc 0) = Inr (kline_row ts (w_current w) rest)"
  "from_end (klines_of older ts rest w) 2 = Inr (kline_row ts (w_middle w) rest)"
  "from_end (klines_of older ts rest w) 3 = Inr (kline_row ts (w_left w) rest)"
  by (simp_all add: from_end_def klines_of_def nth_append)

lemma parse_candles_klines_of:
  "parse_candles (klines_of older ts rest w) =
     Inr ([c_open (w_current w), c_high (w_current w), c_low (w_current w), c_close (w_current w)],
          [c_open (w_middle w), c_high (w_middle w), c_low (w_middle w), c_close (w_middle w)],
          [c_open (w_left w), c_high (w_left w), c_low (w_left w), c_close (w_left w)])"
  by (simp add: parse_candles_def from_end_klines_of float_slice_kline_row)

lemma check_conditions_klines_of:
  "check_conditions symbol (Some (klines_of older ts rest w)) =
     Inr (if list_all (\<lambda>r. r) (seven_rules w)
          then Some \<lparr>sig_symbol = symbol, sig_price = c_close (w_current w)\<rparr> else None)"
proof -
  have len: "klines_of older ts rest w \<noteq> [] \<and> \<not> length (klines_of older ts rest w) < 3"
    by (simp add: klines_of_def)
  show ?thesis
    unfolding check_conditions_def
    by (auto simp add: len parse_candles_klines_of seven_rules_def current_is_bearish_def
        left_is_bullish_def middle_high_exceeds_left_high_def
        middle_body_top_below_left_high_def middle_low_above_left_open_def
        current_high_below_middle_high_def middle_body_smaller_than_left_body_def Let_def)
qed

lemma float_all_error:
  "float_all ps = Inl e \<Longrightarrow> e = ValueError \<or> (e = TypeError \<and> Null \<in> set ps)"
  by (induction ps arbitrary: e) (auto split: sum.splits elim: py_float.elims)

lemma float_all_ok: "float_all ps = Inr rs \<Longrightarrow> Malformed \<notin> set ps"
  by (induction ps arbitrary: rs) (auto split: sum.splits)

lemma last_three_rows:
  assumes "3 \<le> length ks" and "row \<in> set (drop (length ks - 3) ks)"
  shows "row = ks ! (length ks - 1) \<or> row = ks ! (length ks - 2) \<or> row = ks ! (length ks - 3)"
proof -
  from assms(2) obtain i where i: "i < length (drop (length ks - 3) ks)"
    and row: "row = drop (length ks - 3) ks ! i"
    by (auto simp: in_set_conv_nth)
  from i assms(1) have "i < 3" by simp
  then have "i = 0 \<or> i = 1 \<or> i = 2" by arith
  moreover have "row = ks ! (length ks - 3 + i)"
    using row assms(1) by simp
  ultimately show ?thesis
    using assms(1) by (auto simp: numeral_3_eq_3 numeral_2_eq_2)
qed

lemma last_three_mem:
  assumes "3 \<le> length ks" and "1 \<le> i" and "i \<le> 3"
  shows "ks ! (length ks - i) \<in> set (drop (length ks - 3) ks)"
proof -
  have "drop (length ks - 3) ks ! (3 - i) = ks ! (length ks - 3 + (3 - i))"
    using assms by simp
  moreover have "length ks - 3 + (3 - i) = length ks - i"
    using assms by arith
  ultimately have "ks ! (length ks - i) = drop (length ks - 3) ks ! (3 - i)"
    by simp
  moreover have "3 - i < length (drop (length ks - 3) ks)"
    using assms by simp
  ultimately show ?thesis
    by (metis nth_mem)
qed

lemma parse_candles_error:
  assumes len: "3 \<le> length ks" and e: "parse_candles ks = Inl e"
  shows "e = ValueError \<or>
         (e = TypeError \<and> (\<exists>row \<in> set (drop (length ks - 3) ks). Null \<in> set (slice_1_5 row)))"
proof -
  from len e have
    "float_all (slice_1_5 (ks ! (length ks - 1))) = Inl e \<or>
     float_all (slice_1_5 (ks ! (length ks - 2))) = Inl e \<or>
     float_all (slice_1_5 (ks ! (length ks - 3))) = Inl e"
    by (auto simp: parse_candles_def from_end_def split: sum.splits if_splits)
  then consider
      (cur) "float_all (slice_1_5 (ks ! (length ks - 1))) = Inl e"
    | (mid) "float_all (slice_1_5 (ks ! (length ks - 2))) = Inl e"
    | (left) "float_all (slice_1_5 (ks ! (length ks - 3))) = Inl e"
    by blast
  then show ?thesis
  proof cases
    case cur
    have "ks ! (length ks - 1) \<in> set (drop (length ks - 3) ks)"
      by (rule last_three_mem [OF len]) simp_all
    with float_all_error [OF cur] show ?thesis by blast
  next
    case mid
    have "ks ! (length ks - 2) \<in> set (drop (length ks - 3) ks)"
      by (rule last_three_mem [OF len]) simp_all
    with float_all_error [OF mid] show ?thesis by blast
  next
    case left
    have "ks ! (length ks - 3) \<in> set (drop (length ks - 3) ks)"
      by (rule last_three_mem [OF len]) simp_all
    with float_all_error [OF left] show ?thesis by blast
  qed
qed

lemma parse_candles_ok:
  assumes "3 \<le> length ks" and "parse_candles ks = Inr v"
    and "row \<in> set (drop (length ks - 3) ks)"
  shows "Malformed \<notin> set (slice_1_5 row)"
proof -
  from assms(1,2) have
    "Malformed \<notin> set (slice_1_5 (ks ! (length ks - 1)))"
    "Malformed \<notin> set (slice_1_5 (ks ! (length ks - 2)))"
    "Malformed \<notin> set (slice_1_5 (ks ! (length ks - 3)))"
    by (auto simp: parse_candles_def from_end_def split: sum.splits if_splits dest: float_all_ok)
  with last_three_rows [OF assms(1,3)] show ?thesis by auto
qed

text \<open>
  The cases in which \<^verbatim>\<open>check_conditions\<close> does return without an alert: the request
  failed, fewer than three rows, or a price field of the last three rows is a string that
  is not a number while none of them is \<^verbatim>\<open>null\<close>.
\<close>

lemma check_conditions_failed_request: "check_conditions s None = Inr None"
  by (simp add: check_conditions_def)

lemma check_conditions_few_rows: "length ks < 3 \<Longrightarrow> check_conditions s (Some ks) = Inr None"
  by (simp add: check_conditions_def)

lemma check_conditions_malformed_string:
  assumes len: "3 \<le> length ks"
    and nonull: "\<forall>row \<in> set (drop (length ks - 3) ks). Null \<notin> set (slice_1_5 row)"
    and row: "row \<in> set (drop (length ks - 3) ks)"
    and bad: "Malformed \<in> set (slice_1_5 row)"
  shows "check_conditions s (Some ks) = Inr None"
proof -
  have "\<exists>e. parse_candles ks = Inl e"
  proof (cases "parse_candles ks")
    case (Inr v)
    from parse_candles_ok [OF len Inr row] bad show ?thesis by simp
  qed simp
  then obtain e where e: "parse_candles ks = Inl e" ..
  from parse_candles_error [OF len e] nonull have "e = ValueError" by blast
  with e len show ?thesis by (auto simp: check_conditions_def)
qed

text \<open>
  A row with fewer than five entries: its slice is short, the conversion succeeds, and
  the unpacking after the \<^verbatim>\<open>try\<close> block raises ValueError, which stays in the future of
  the task.
\<close>

lemma short_row_raises:
  "check_conditions s (Some [kline_row ts a rest, kline_row ts b rest, [ts, Numeric 1]]) =
     Inl ValueError"
  by (simp add: check_conditions_def parse_candles_def from_end_def slice_1_5_def
      kline_row_def)

lemma scan_outcomes_siblings:
  "filter (\<lambda>(n, r). n \<noteq> s) (scan_outcomes (candles(s := k)) symbols) =
   filter (\<lambda>(n, r). n \<noteq> s) (scan_outcomes candles symbols)"
  by (induction symbols) (simp_all add: scan_outcomes_def)

lemma check_conditions_symbol:
  "check_conditions s k = Inr (Some a) \<Longrightarrow> sig_symbol a = s"
  unfolding check_conditions_def Let_def
  by (simp split: option.splits if_splits sum.splits prod.splits) auto

lemma scan_alerts_symbol:
  assumes "a \<in> set (scan_alerts candles symbols)"
  shows "check_conditions (sig_symbol a) (candles (sig_symbol a)) = Inr (Some a)"
proof -
  from assms obtain s where s: "check_conditions s (candles s) = Inr (Some a)"
    by (auto simp: scan_alerts_def scan_outcomes_def map_filter_def
        split: sum.splits option.splits)
  then have "sig_symbol a = s" by (rule check_conditions_symbol)
  with s show ?thesis by simp
qed

section \<open>The flow scan: proofs\<close>

subsection \<open>The sort\<close>

lemma filter_sort_insert:
  assumes irrefl: "\<And>a. \<not> lt a a"
  shows "filter (\<lambda>y. key y = k) (sort_insert lt key reverse x ys) =
         (if key x = k then x # filter (\<lambda>y. key y = k) ys else filter (\<lambda>y. key y = k) ys)"
proof (induction ys)
  case Nil
  show ?case by simp
next
  case (Cons y ys)
  show ?case
  proof (cases "if reverse then lt (key x) (key y) else lt (key y) (key x)")
    case True
    then have "key x \<noteq> key y"
      using irrefl by (auto split: if_splits)
    with True Cons show ?thesis by auto
  next
    case False
    then show ?thesis by simp
  qed
qed

lemma list_sort_stable:
  assumes "\<And>a. \<not> lt a a"
  shows "filter (\<lambda>y. key y = k) (list_sort lt key reverse xs) = filter (\<lambda>y. key y = k) xs"
  by (induction xs) (simp_all add: list_sort_def filter_sort_insert [of lt, OF assms])

lemma mset_sort_insert: "mset (sort_insert lt key reverse x ys) = add_mset x (mset ys)"
  by (induction ys) simp_all

lemma mset_list_sort: "mset (list_sort lt key reverse xs) = mset xs"
  by (induction xs) (simp_all add: list_sort_def mset_sort_insert)

lemma set_list_sort: "set (list_sort lt key reverse xs) = set xs"
  using mset_list_sort [of lt key reverse xs] by (metis set_mset_mset)

lemma sort_insert_insort_key:
  fixes key :: "'a \<Rightarrow> 'k::linorder"
  shows "sort_insert (<) key False x ys = insort_key key x ys"
  by (induction ys) auto

lemma list_sort_sort_key:
  fixes key :: "'a \<Rightarrow> 'k::linorder"
  shows "list_sort (<) key False xs = sort_key key xs"
  by (induction xs) (simp_all add: list_sort_def sort_insert_insort_key)

lemma fl_lt_irrefl: "\<not> fl_lt a a"
  by (cases a) simp_all

lemma fl_lt_asym: "fl_lt a b \<Longrightarrow> \<not> fl_lt b a"
  by (cases a; cases b) simp_all

lemma fl_lt_negtrans:
  "b \<noteq> NaN \<Longrightarrow> \<not> fl_lt a b \<Longrightarrow> \<not> fl_lt b c \<Longrightarrow> \<not> fl_lt a c"
  by (cases a; cases b; cases c) simp_all

lemma set_sort_insert: "set (sort_insert lt key reverse x ys) = insert x (set ys)"
  by (induction ys) auto

lemma sorted_sort_insert_desc:
  assumes "\<forall>y \<in> set ys. key y \<noteq> NaN"
    and "sorted_wrt (\<lambda>a b. \<not> fl_lt (key a) (key b)) ys"
  shows "sorted_wrt (\<lambda>a b. \<not> fl_lt (key a) (key b)) (sort_insert fl_lt key True x ys)"
  using assms
proof (induction ys)
  case Nil
  show ?case by simp
next
  case (Cons y ys)
  show ?case
  proof (cases "fl_lt (key x) (key y)")
    case True
    with Cons show ?thesis
      by (auto simp: set_sort_insert dest: fl_lt_asym)
  next
    case False
    have "\<not> fl_lt (key x) (key z)" if "z \<in> set ys" for z
    proof -
      from Cons.prems that have "key y \<noteq> NaN" and "\<not> fl_lt (key y) (key z)" by auto
      with False show ?thesis by (blast dest: fl_lt_negtrans)
    qed
    with False Cons.prems show ?thesis by simp
  qed
qed

lemma sorted_list_sort_desc:
  assumes "\<forall>y \<in> set xs. key y \<noteq> NaN"
  shows "sorted_wrt (\<lambda>a b. \<not> fl_lt (key a) (key b)) (list_sort fl_lt key True xs)"
  using assms
proof (induction xs)
  case Nil
  show ?case by (simp add: list_sort_def)
next
  case (Cons x xs)
  then have "sorted_wrt (\<lambda>a b. \<not> fl_lt (key a) (key b)) (list_sort fl_lt key True xs)"
    by simp
  moreover from Cons.prems have "\<forall>y \<in> set (list_sort fl_lt key True xs). key y \<noteq> NaN"
    by (simp add: set_list_sort)
  ultimately have "sorted_wrt (\<lambda>a b. \<not> fl_lt (key a) (key b))
      (sort_insert fl_lt key True x (list_sort fl_lt key True xs))"
    by (rule sorted_sort_insert_desc [rotated])
  then show ?case by (simp add: list_sort_def)
qed

subsection \<open>Ratios\<close>

lemma buy_sell_ratio_value:
  "buy_sell_ratio n d = Inr (if 0 < d then Fin (n / d) else PInf)"
  by (simp add: buy_sell_ratio_def)

lemma fetch_and_process_symbol_Inr:
  assumes "calculate_passive_order_value book = Inr (lb, ls)"
    and "calculate_active_trade_value trades = Inr (mb, ms)"
  shows "fetch_and_process_symbol symbol book trades =
     Inr \<lparr>coin = symbol, limitBuy = py_round lb, limitSell = py_round ls,
          marketBuy = py_round mb, marketSell = py_round ms,
          limit_bs_ratio = (if 0 < ls then Fin (lb / ls) else PInf),
          market_bs_ratio = (if 0 < ms then Fin (mb / ms) else PInf)\<rparr>"
  using assms by (simp add: fetch_and_process_symbol_def buy_sell_ratio_value)

lemma fetch_and_process_symbol_cases:
  assumes "fetch_and_process_symbol symbol book trades = Inr r"
  obtains lb ls mb ms where "calculate_passive_order_value book = Inr (lb, ls)"
    and "calculate_active_trade_value trades = Inr (mb, ms)"
  using assms by (auto simp: fetch_and_process_symbol_def split: sum.splits prod.splits)

lemma fetch_and_process_symbol_coin:
  "fetch_and_process_symbol symbol book trades = Inr r \<Longrightarrow> coin r = symbol"
  by (auto simp: fetch_and_process_symbol_def split: sum.splits prod.splits)

lemma py_round_0: "py_round 0 = 0"
  by (simp add: py_round_def)

subsection \<open>Added ratios and filters\<close>

lemma fl_div_guarded: "fl_gt b (Fin 0) \<Longrightarrow> \<exists>v. fl_div a b = Inr v"
  by (cases b; cases a) (simp_all add: fl_gt_def)

lemma add_ratios_total: "\<exists>c'. add_ratios c = Inr c'"
proof -
  obtain lm where lm: "(if fl_gt (market_bs_ratio c) (Fin 0)
            then fl_div (limit_bs_ratio c) (market_bs_ratio c) else Inr PInf) = Inr lm"
    using fl_div_guarded [of "market_bs_ratio c" "limit_bs_ratio c"]
    by (cases "fl_gt (market_bs_ratio c) (Fin 0)") auto
  obtain ml where ml: "(if fl_gt (limit_bs_ratio c) (Fin 0)
            then fl_div (market_bs_ratio c) (limit_bs_ratio c) else Inr PInf) = Inr ml"
    using fl_div_guarded [of "limit_bs_ratio c" "market_bs_ratio c"]
    by (cases "fl_gt (limit_bs_ratio c) (Fin 0)") auto
  show ?thesis unfolding add_ratios_def lm ml by simp
qed

lemma add_ratios_fields:
  "add_ratios c = Inr c' \<Longrightarrow>
     coin c' = coin c \<and> limit_bs_ratio c' = limit_bs_ratio c \<and>
     market_bs_ratio c' = market_bs_ratio c"
  unfolding add_ratios_def by (auto split: sum.splits)

lemma add_ratios_all_total: "\<exists>cs. add_ratios_all data = Inr cs"
proof (induction data)
  case Nil
  show ?case by simp
next
  case (Cons c data)
  from add_ratios_total obtain c' where "add_ratios c = Inr c'" by blast
  with Cons show ?case by auto
qed

lemma add_ratios_all_coins: "add_ratios_all data = Inr cs \<Longrightarrow> map coin cs = map coin data"
  by (induction data arbitrary: cs) (auto split: sum.splits dest: add_ratios_fields)

lemma add_ratios_all_set:
  "add_ratios_all data = Inr cs \<Longrightarrow> c' \<in> set cs \<Longrightarrow> \<exists>c \<in> set data. add_ratios c = Inr c'"
  by (induction data arbitrary: cs) (auto split: sum.splits)

lemma display_trade_setups_Inr:
  assumes "add_ratios_all data = Inr cs"
  shows "display_trade_setups data =
     Inr (list_sort fl_lt limit_market_ratio True (filter potential_short cs),
          list_sort fl_lt market_limit_ratio True (filter potential_long cs))"
  using assms by (simp add: display_trade_setups_def)

lemma not_short_and_long: "\<not> (potential_short c \<and> potential_long c)"
  by (cases "limit_bs_ratio c") (auto simp: potential_short_def potential_long_def fl_gt_def)

lemma boundary_excluded:
  "limit_bs_ratio c = Fin 1 \<or> market_bs_ratio c = Fin 1 \<Longrightarrow>
     \<not> potential_short c \<and> \<not> potential_long c"
  by (auto simp: potential_short_def potential_long_def fl_gt_def)

lemma short_key_not_NaN:
  "add_ratios c = Inr x \<Longrightarrow> potential_short x \<Longrightarrow> limit_market_ratio x \<noteq> NaN"
  by (cases "limit_bs_ratio c"; cases "market_bs_ratio c")
     (auto simp: add_ratios_def potential_short_def fl_gt_def split: if_splits)

lemma long_key_not_NaN:
  "add_ratios c = Inr x \<Longrightarrow> potential_long x \<Longrightarrow> market_limit_ratio x \<noteq> NaN"
  by (cases "limit_bs_ratio c"; cases "market_bs_ratio c")
     (auto simp: add_ratios_def potential_long_def fl_gt_def split: if_splits)

lemma ranked_keys_not_NaN:
  assumes "add_ratios_all data = Inr cs"
  shows "\<forall>x \<in> set (filter potential_short cs). limit_market_ratio x \<noteq> NaN"
    and "\<forall>x \<in> set (filter potential_long cs). market_limit_ratio x \<noteq> NaN"
  using add_ratios_all_set [OF assms] short_key_not_NaN long_key_not_NaN
  by fastforce+

subsection \<open>The universe\<close>

lemma match_loop_take:
  "length acc < n \<Longrightarrow>
     match_loop n S acc cands = acc @ take (n - length acc) (matches S cands)"
proof (induction cands arbitrary: acc)
  case Nil
  show ?case by simp
next
  case (Cons cd cands)
  show ?case
  proof (cases "binance_symbol_of cd \<in> S")
    case True
    show ?thesis
    proof (cases "Suc (length acc) = n")
      case True
      then have "n - length acc = 1" by arith
      with True \<open>binance_symbol_of cd \<in> S\<close> show ?thesis by (simp add: Let_def)
    next
      case False
      with Cons.prems have lt: "length (acc @ [binance_symbol_of cd]) < n" by simp
      from Cons.prems obtain m where m: "n - length acc = Suc m"
        by (cases "n - length acc") auto
      then have m': "n - Suc (length acc) = m" by simp
      show ?thesis
        using Cons.IH [OF lt] True False m m' by (simp add: Let_def)
    qed
  next
    case False
    with Cons show ?thesis by (simp add: Let_def)
  qed
qed

lemma match_loop_some_take:
  "\<exists>m. match_loop n S acc cands = acc @ take m (matches S cands)"
proof (induction cands arbitrary: acc)
  case Nil
  show ?case by simp
next
  case (Cons cd cands)
  show ?case
  proof (cases "binance_symbol_of cd \<in> S")
    case True
    show ?thesis
    proof (cases "Suc (length acc) = n")
      case True
      with \<open>binance_symbol_of cd \<in> S\<close>
      have "match_loop n S acc (cd # cands) = acc @ take 1 (matches S (cd # cands))"
        by (simp add: Let_def)
      then show ?thesis by blast
    next
      case False
      from Cons.IH [of "acc @ [binance_symbol_of cd]"] obtain m where
        "match_loop n S (acc @ [binance_symbol_of cd]) cands =
           (acc @ [binance_symbol_of cd]) @ take m (matches S cands)" by blast
      with True False
      have "match_loop n S acc (cd # cands) = acc @ take (Suc m) (matches S (cd # cands))"
        by (simp add: Let_def)
      then show ?thesis by blast
    qed
  next
    case False
    show ?thesis
    proof (cases "length acc = n")
      case True
      with False have "match_loop n S acc (cd # cands) = acc @ take 0 (matches S (cd # cands))"
        by (simp add: Let_def)
      then show ?thesis by blast
    next
      case neq: False
      with False Cons.IH [of acc] show ?thesis by (simp add: Let_def)
    qed
  qed
qed

lemma match_coins_take:
  "0 < target \<Longrightarrow> match_coins target S cands = take target (matches S cands)"
  using match_loop_take [of "[]" target S cands] by (simp add: match_coins_def)

subsection \<open>The scan\<close>

lemma first_index_inj:
  "x \<in> set xs \<Longrightarrow> first_index xs x = first_index xs y \<Longrightarrow> x = y"
  by (induction xs) (auto split: if_splits)

lemma set_map_filter: "set (List.map_filter g xs) = {y. \<exists>x \<in> set xs. g x = Some y}"
  by (induction xs) (auto simp: map_filter_simps split: option.splits)

lemma result_of_task: "(case t of Inl e \<Rightarrow> None | Inr x \<Rightarrow> Some x) = Some r \<longleftrightarrow> t = Inr r"
  by (cases t) auto

lemma collect_results_set:
  "r \<in> set (collect_results depth_of trades_of completed) \<longleftrightarrow>
     (\<exists>s \<in> set completed. fetch_and_process_symbol s (depth_of s) (trades_of s) = Inr r)"
  by (simp add: collect_results_def set_map_filter result_of_task)

lemma collect_results_mset:
  assumes "mset completed = mset coins"
  shows "mset (collect_results depth_of trades_of completed) =
         mset (collect_results depth_of trades_of coins)"
  using assms by (simp add: collect_results_def map_filter_def)

lemma collect_results_coin:
  "r \<in> set (collect_results depth_of trades_of completed) \<Longrightarrow>
     coin r \<in> set completed \<and>
     fetch_and_process_symbol (coin r) (depth_of (coin r)) (trades_of (coin r)) = Inr r"
  by (auto simp: collect_results_set dest: fetch_and_process_symbol_coin)

lemma collect_results_all_ranked:
  assumes "set completed \<subseteq> set coins"
  shows "list_all (\<lambda>x. coin x \<in> set coins) (collect_results depth_of trades_of completed)"
  using assms collect_results_coin [of _ depth_of trades_of completed]
  by (auto simp: list_all_iff)

lemma sort_by_rank_Inr:
  assumes "set completed \<subseteq> set coins"
  shows "sort_by_rank coins (collect_results depth_of trades_of completed) =
           Inr (sort_key (\<lambda>x. first_index coins (coin x))
                  (collect_results depth_of trades_of completed))"
  using collect_results_all_ranked [OF assms]
  by (simp add: sort_by_rank_def list_sort_sort_key)

lemma display_trade_setups_total: "\<exists>shorts longs. display_trade_setups data = Inr (shorts, longs)"
  using add_ratios_all_total [of data] by (auto simp: display_trade_setups_def Let_def)

subsection \<open>Failed requests\<close>

lemma passive_failed: "calculate_passive_order_value None = Inr (0, 0)"
  by (simp add: calculate_passive_order_value_def)

lemma active_failed: "calculate_active_trade_value None = Inr (0, 0)"
  by (simp add: calculate_active_trade_value_def)

lemma fetch_both_failed:
  "fetch_and_process_symbol s None None =
     Inr \<lparr>coin = s, limitBuy = 0, limitSell = 0, marketBuy = 0, marketSell = 0,
          limit_bs_ratio = PInf, market_bs_ratio = PInf\<rparr>"
  using fetch_and_process_symbol_Inr [OF passive_failed active_failed, of s]
  by (simp add: py_round_0)

lemma fetch_depth_failed:
  "fetch_and_process_symbol s None t =
     (case calculate_active_trade_value t of
        Inl e \<Rightarrow> Inl e
      | Inr (mb, ms) \<Rightarrow>
          Inr \<lparr>coin = s, limitBuy = 0, limitSell = 0, marketBuy = py_round mb,
               marketSell = py_round ms, limit_bs_ratio = PInf,
               market_bs_ratio = (if 0 < ms then Fin (mb / ms) else PInf)\<rparr>)"
proof (cases "calculate_active_trade_value t")
  case (Inl e)
  then show ?thesis by (simp add: fetch_and_process_symbol_def passive_failed)
next
  case (Inr v)
  obtain mb ms where v: "v = (mb, ms)" by (cases v)
  from fetch_and_process_symbol_Inr [OF passive_failed Inr [unfolded v], of s] Inr v
  show ?thesis by (simp add: py_round_0)
qed

lemma fetch_trades_failed:
  "fetch_and_process_symbol s d None =
     (case calculate_passive_order_value d of
        Inl e \<Rightarrow> Inl e
      | Inr (lb, ls) \<Rightarrow>
          Inr \<lparr>coin = s, limitBuy = py_round lb, limitSell = py_round ls, marketBuy = 0,
               marketSell = 0, limit_bs_ratio = (if 0 < ls then Fin (lb / ls) else PInf),
               market_bs_ratio = PInf\<rparr>)"
proof (cases "calculate_passive_order_value d")
  case (Inl e)
  then show ?thesis by (simp add: fetch_and_process_symbol_def)
next
  case (Inr v)
  obtain lb ls where v: "v = (lb, ls)" by (cases v)
  from fetch_and_process_symbol_Inr [OF Inr [unfolded v] active_failed, of s] Inr v
  show ?thesis by (simp add: py_round_0)
qed

lemma both_failed_not_ranked:
  assumes dn: "depth_of s = None" and tn: "trades_of s = None"
    and run: "run_scan depth_of trades_of coins completed = Inr (shorts, longs)"
  shows "s \<notin> coin ` set shorts \<and> s \<notin> coin ` set longs"
proof -
  from run obtain ranked where
    sr: "sort_by_rank coins (collect_results depth_of trades_of completed) = Inr ranked"
    and d: "display_trade_setups ranked = Inr (shorts, longs)"
    by (auto simp: run_scan_def split: sum.splits)
  from sr have ss: "set ranked = set (collect_results depth_of trades_of completed)"
    by (auto simp: sort_by_rank_def set_list_sort split: if_splits)
  obtain cs where cs: "add_ratios_all ranked = Inr cs"
    using add_ratios_all_total by blast
  from d display_trade_setups_Inr [OF cs]
  have sh: "set shorts = {x \<in> set cs. potential_short x}"
    and lo: "set longs = {x \<in> set cs. potential_long x}"
    by (auto simp: set_list_sort)
  have key: "\<not> potential_short x \<and> \<not> potential_long x" if x: "x \<in> set cs" "coin x = s" for x
  proof -
    from add_ratios_all_set [OF cs x(1)] obtain c where
      c: "c \<in> set ranked" and cx: "add_ratios c = Inr x" by blast
    from add_ratios_fields [OF cx] x(2) have cs: "coin c = s"
      and r: "limit_bs_ratio x = limit_bs_ratio c" "market_bs_ratio x = market_bs_ratio c"
      by simp_all
    from c ss have "c \<in> set (collect_results depth_of trades_of completed)" by simp
    from collect_results_coin [OF this, THEN conjunct2] cs dn tn
    have "fetch_and_process_symbol s None None = Inr c" by simp
    then have "limit_bs_ratio c = PInf" "market_bs_ratio c = PInf"
      by (auto simp: fetch_both_failed)
    with r show ?thesis by (simp add: potential_short_def potential_long_def fl_gt_def)
  qed
  show ?thesis unfolding sh lo using key by auto
qed

lemma collect_results_siblings:
  "filter (\<lambda>r. coin r \<noteq> s) (collect_results (depth_of(s := d)) (trades_of(s := t)) completed) =
   filter (\<lambda>r. coin r \<noteq> s) (collect_results depth_of trades_of completed)"
  by (induction completed)
     (auto simp: collect_results_def map_filter_simps split: sum.splits
           dest: fetch_and_process_symbol_coin)

lemmas rule_defs =
  current_is_bearish_def left_is_bullish_def middle_high_exceeds_left_high_def
  middle_body_top_below_left_high_def middle_low_above_left_open_def
  current_high_below_middle_high_def middle_body_smaller_than_left_body_def

lemmas scan_defs =
  run_scan_def sort_by_rank_def collect_results_def map_filter_def
  fetch_and_process_symbol_def calculate_passive_order_value_def
  calculate_active_trade_value_def buy_sell_ratio_def py_round_def list_sort_def
  display_trade_setups_def add_ratios_def fl_gt_def potential_short_def potential_long_def

lemmas universe_defs =
  match_coins_def binance_symbol_of_def str_upper_def upper_char_def Let_def

section \<open>The claims\<close>

subsection \<open>C1: a failed per-symbol request\<close>

text \<open>
  Claim C1 says that a symbol whose depth, trades or candles request fails yields a
  failure result and is only ever missing from the ranked output. In the flow scan this
  is not so: with the depth request failed and one taker sell among the trades, the
  symbol is a row of the table of potential shorts.
\<close>

theorem failed_depth_symbol_is_ranked:
  "failed_depth ''XUSDT'' = None \<and>
   run_scan failed_depth one_taker_sell [''XUSDT''] [''XUSDT''] =
     Inr ([\<lparr>coin = ''XUSDT'', limitBuy = 0, limitSell = 0, marketBuy = 0, marketSell = 1,
            limit_bs_ratio = PInf, market_bs_ratio = Fin 0,
            limit_market_ratio = PInf, market_limit_ratio = Fin 0\<rparr>], [])"
  by (simp add: scan_defs failed_depth_def one_taker_sell_def)

text \<open>
  C1 as amended: a failed depth or trades request raises nothing and counts as the
  totals (0, 0) of its feed, so the symbol still yields a populated result in which the
  ratio of the failed feed is \<open>+\<infinity>\<close>; when both requests fail both ratios are \<open>+\<infinity>\<close> and
  the symbol is in neither ranked list; the results of the other symbols do not depend on
  what the requests of this symbol return; a failed candles request ends
  \<^verbatim>\<open>check_conditions\<close> without an alert.
\<close>

theorem failed_fetch_counts_as_zero:
  "calculate_passive_order_value None = Inr (0, 0) \<and>
   calculate_active_trade_value None = Inr (0, 0) \<and>
   fetch_and_process_symbol s None t =
     (case calculate_active_trade_value t of
        Inl e \<Rightarrow> Inl e
      | Inr (mb, ms) \<Rightarrow>
          Inr \<lparr>coin = s, limitBuy = 0, limitSell = 0, marketBuy = py_round mb,
               marketSell = py_round ms, limit_bs_ratio = PInf,
               market_bs_ratio = (if 0 < ms then Fin (mb / ms) else PInf)\<rparr>) \<and>
   fetch_and_process_symbol s d None =
     (case calculate_passive_order_value d of
        Inl e \<Rightarrow> Inl e
      | Inr (lb, ls) \<Rightarrow>
          Inr \<lparr>coin = s, limitBuy = py_round lb, limitSell = py_round ls, marketBuy = 0,
               marketSell = 0, limit_bs_ratio = (if 0 < ls then Fin (lb / ls) else PInf),
               market_bs_ratio = PInf\<rparr>) \<and>
   fetch_and_process_symbol s None None =
     Inr \<lparr>coin = s, limitBuy = 0, limitSell = 0, marketBuy = 0, marketSell = 0,
          limit_bs_ratio = PInf, market_bs_ratio = PInf\<rparr> \<and>
   (depth_of s = None \<and> trades_of s = None \<and>
    run_scan depth_of trades_of coins completed = Inr (shorts, longs) \<longrightarrow>
      s \<notin> coin ` set shorts \<and> s \<notin> coin ` set longs) \<and>
   filter (\<lambda>r. coin r \<noteq> s)
       (collect_results (depth_of(s := d')) (trades_of(s := t')) completed) =
     filter (\<lambda>r. coin r \<noteq> s) (collect_results depth_of trades_of completed) \<and>
   check_conditions s None = Inr None"
  using both_failed_not_ranked [of depth_of s trades_of coins completed shorts longs]
  by (simp add: passive_failed active_failed fetch_depth_failed fetch_trades_failed
      py_round_0 collect_results_siblings check_conditions_def)

text \<open>
  The amended claim at concrete feeds: both requests of \<open>XUSDT\<close> fail, the scan runs and
  \<open>XUSDT\<close> is in neither list.
\<close>

theorem failed_fetch_counts_as_zero_witness:
  "failed_depth ''XUSDT'' = None \<and> failed_trades ''XUSDT'' = None \<and>
   run_scan failed_depth failed_trades [''XUSDT''] [''XUSDT''] = Inr ([], []) \<and>
   ''XUSDT'' \<notin> coin ` set ([] :: setup_data list) \<and>
   fetch_and_process_symbol ''XUSDT'' (failed_depth ''XUSDT'') (one_taker_sell ''XUSDT'') =
     Inr \<lparr>coin = ''XUSDT'', limitBuy = 0, limitSell = 0, marketBuy = 0, marketSell = 1,
          limit_bs_ratio = PInf, market_bs_ratio = Fin 0\<rparr> \<and>
   fetch_and_process_symbol ''XUSDT'' (one_bid ''XUSDT'') (failed_trades ''XUSDT'') =
     Inr \<lparr>coin = ''XUSDT'', limitBuy = 6, limitSell = 0, marketBuy = 0, marketSell = 0,
          limit_bs_ratio = PInf, market_bs_ratio = PInf\<rparr>"
proof -
  have run: "run_scan failed_depth failed_trades [''XUSDT''] [''XUSDT''] = Inr ([], [])"
    by (simp add: scan_defs failed_depth_def failed_trades_def)
  have act: "calculate_active_trade_value (Some [\<lparr>t_p = Numeric 1, t_q = Numeric 1, t_m = True\<rparr>])
               = Inr (0, 1)"
    by (simp add: calculate_active_trade_value_def)
  have pas: "calculate_passive_order_value (Some \<lparr>bids = [(Numeric 2, Numeric 3)], asks = []\<rparr>)
               = Inr (6, 0)"
    by (simp add: calculate_passive_order_value_def)
  have r1: "py_round 1 = 1" and r6: "py_round 6 = 6" and r0: "py_round 0 = 0"
    by (simp_all add: py_round_def)
  show ?thesis
    using failed_fetch_counts_as_zero
      [of "''XUSDT''" "Some [\<lparr>t_p = Numeric 1, t_q = Numeric 1, t_m = True\<rparr>]"
          "Some \<lparr>bids = [(Numeric 2, Numeric 3)], asks = []\<rparr>"
          failed_depth failed_trades "[''XUSDT'']" "[''XUSDT'']" "[]" "[]"]
    by (simp add: run act pas r1 r6 r0 failed_depth_def failed_trades_def one_taker_sell_def
        one_bid_def)
qed

subsection \<open>C2: a signal exactly when all seven rules hold\<close>

text \<open>
  Claim C2: for every window of a left, a middle and a current candle, given to
  \<^verbatim>\<open>check_conditions\<close> as the last three rows of the candles of a symbol, the alert is
  emitted if and only if all seven rules hold; when any of them is false the function
  returns without an alert. The emitted alert carries the symbol and the close of the
  current candle.
\<close>

theorem signal_iff_all_seven_rules:
  "check_conditions symbol (Some (klines_of older ts rest w)) =
     (if current_is_bearish w \<and> left_is_bullish w \<and> middle_high_exceeds_left_high w \<and>
         middle_body_top_below_left_high w \<and> middle_low_above_left_open w \<and>
         current_high_below_middle_high w \<and> middle_body_smaller_than_left_body w
      then Inr (Some \<lparr>sig_symbol = symbol, sig_price = c_close (w_current w)\<rparr>)
      else Inr None)"
  by (simp add: check_conditions_klines_of seven_rules_def)

text \<open>The third end-to-end example of the specification is confirmed; with a current candle
  that is not bearish it is not.\<close>

theorem signal_iff_all_seven_rules_witness:
  "check_conditions ''BTCUSDT'' (Some (klines_of [] (Numeric 0) [] example_window)) =
     Inr (Some \<lparr>sig_symbol = ''BTCUSDT'', sig_price = 9\<rparr>) \<and>
   check_conditions ''BTCUSDT'' (Some (klines_of [] (Numeric 0) [] doji_window)) = Inr None"
  using signal_iff_all_seven_rules [of "''BTCUSDT''" "[]" "Numeric 0" "[]" example_window]
    signal_iff_all_seven_rules [of "''BTCUSDT''" "[]" "Numeric 0" "[]" doji_window]
  by (simp add: example_window_def doji_window_def rule_defs)

subsection \<open>C3: the ratio of a feed\<close>

text \<open>
  Claim C3: for every numerator \<open>n\<close> and denominator \<open>d\<close> the ratio expression gives
  \<open>n / d\<close> when \<open>d > 0\<close> and \<open>+\<infinity>\<close> when \<open>d = 0\<close>, also for \<open>n = 0\<close> and \<open>d = 0\<close>; it is never
  NaN and never raises; and both ratios of the result of \<^verbatim>\<open>fetch_and_process_symbol\<close>
  are this expression of the totals of their feed. (The theorem does not need \<open>n \<ge> 0\<close>.)
\<close>

theorem buy_sell_ratio_convention:
  "(0 < d \<longrightarrow> buy_sell_ratio n d = Inr (Fin (n / d))) \<and>
   (d = 0 \<longrightarrow> buy_sell_ratio n d = Inr PInf) \<and>
   buy_sell_ratio 0 0 = Inr PInf \<and>
   buy_sell_ratio n d \<noteq> Inr NaN \<and>
   (\<forall>e. buy_sell_ratio n d \<noteq> Inl e) \<and>
   (\<forall>r. fetch_and_process_symbol symbol book trades = Inr r \<longrightarrow>
      (\<exists>lb ls mb ms.
         calculate_passive_order_value book = Inr (lb, ls) \<and>
         calculate_active_trade_value trades = Inr (mb, ms) \<and>
         Inr (limit_bs_ratio r) = buy_sell_ratio lb ls \<and>
         Inr (market_bs_ratio r) = buy_sell_ratio mb ms))"
proof -
  have "\<exists>lb ls mb ms.
         calculate_passive_order_value book = Inr (lb, ls) \<and>
         calculate_active_trade_value trades = Inr (mb, ms) \<and>
         Inr (limit_bs_ratio r) = buy_sell_ratio lb ls \<and>
         Inr (market_bs_ratio r) = buy_sell_ratio mb ms"
    if r: "fetch_and_process_symbol symbol book trades = Inr r" for r
  proof -
    from r obtain lb ls mb ms where p: "calculate_passive_order_value book = Inr (lb, ls)"
      and a: "calculate_active_trade_value trades = Inr (mb, ms)"
      by (rule fetch_and_process_symbol_cases)
    from fetch_and_process_symbol_Inr [OF p a, of symbol] r
    have "Inr (limit_bs_ratio r) = buy_sell_ratio lb ls \<and>
          Inr (market_bs_ratio r) = buy_sell_ratio mb ms"
      by (auto simp: buy_sell_ratio_value)
    with p a show ?thesis by blast
  qed
  then show ?thesis by (simp add: buy_sell_ratio_value)
qed

text \<open>The first two end-to-end examples of the specification: 1000 over 500 is 2, and 50
  over 0 is \<open>+\<infinity>\<close>.\<close>

theorem buy_sell_ratio_convention_witness:
  "(0::real) < 500 \<and> buy_sell_ratio 1000 500 = Inr (Fin 2) \<and>
   buy_sell_ratio 50 0 = Inr PInf \<and>
   fetch_and_process_symbol ''XUSDT'' (one_bid ''XUSDT'') (one_taker_sell ''XUSDT'') =
     Inr \<lparr>coin = ''XUSDT'', limitBuy = 6, limitSell = 0, marketBuy = 0, marketSell = 1,
          limit_bs_ratio = PInf, market_bs_ratio = Fin 0\<rparr>"
proof -
  have f: "fetch_and_process_symbol ''XUSDT'' (one_bid ''XUSDT'') (one_taker_sell ''XUSDT'') =
     Inr \<lparr>coin = ''XUSDT'', limitBuy = 6, limitSell = 0, marketBuy = 0, marketSell = 1,
          limit_bs_ratio = PInf, market_bs_ratio = Fin 0\<rparr>"
    by (simp add: scan_defs one_bid_def one_taker_sell_def)
  show ?thesis
    using buy_sell_ratio_convention [of 500 1000 "''XUSDT''" "one_bid ''XUSDT''" "one_taker_sell ''XUSDT''"]
      buy_sell_ratio_convention [of 0 50 "''XUSDT''" "one_bid ''XUSDT''" "one_taker_sell ''XUSDT''"]
    by (simp add: f)
qed

subsection \<open>C4: the universe is the first matches, in the candidates' order\<close>

text \<open>
  Claim C4: for every candidate list and every set of tradable identifiers, with a
  positive target count, the list that the matching loop builds is a subsequence of the
  candidates' identifiers in their order, it is the first \<open>target\<close> matches, its length is
  the minimum of the target and the number of matches, candidates after the one that
  completes the target are not looked at, and without a match the list is empty.
\<close>

theorem match_coins_first_matches:
  assumes "0 < target"
  shows "subseq (match_coins target S cands) (map binance_symbol_of cands) \<and>
         match_coins target S cands = take target (matches S cands) \<and>
         length (match_coins target S cands) = min target (length (matches S cands)) \<and>
         (target \<le> length (matches S cands) \<longrightarrow>
            match_coins target S (cands @ extra) = match_coins target S cands) \<and>
         (matches S cands = [] \<longrightarrow> match_coins target S cands = [])"
proof -
  have "subseq (take target (matches S cands)) (matches S cands)"
    by (rule prefix_imp_subseq) (rule take_is_prefix)
  moreover have "subseq (matches S cands) (map binance_symbol_of cands)"
    by simp
  ultimately have "subseq (take target (matches S cands)) (map binance_symbol_of cands)"
    by (rule subseq_order.trans)
  then show ?thesis
    by (simp add: match_coins_take [OF assms] min.commute)
qed

text \<open>Three candidates of which the venue trades the first and the last, with target 1 and
  with target 100.\<close>

theorem match_coins_first_matches_witness:
  "(0::nat) < 1 \<and> match_coins 1 {''BTCUSDT'', ''ETHUSDT''} btc_eth = [''BTCUSDT''] \<and>
   (0::nat) < 100 \<and>
   match_coins 100 {''BTCUSDT'', ''ETHUSDT''} btc_eth = [''BTCUSDT'', ''ETHUSDT''] \<and>
   match_coins 100 {} btc_eth = []"
proof -
  have p1: "(0::nat) < 1" and p100: "(0::nat) < 100" by simp_all
  show ?thesis
    using match_coins_first_matches [OF p1, of "{''BTCUSDT'', ''ETHUSDT''}" btc_eth "[]"]
      match_coins_first_matches [OF p100, of "{''BTCUSDT'', ''ETHUSDT''}" btc_eth "[]"]
      match_coins_first_matches [OF p100, of "{}" btc_eth "[]"]
    by (simp add: btc_eth_def binance_symbol_of_def str_upper_def upper_char_def)
qed

subsection \<open>C5: the order of completion does not show in the ranked output\<close>

text \<open>
  Claim C5: for fixed feeds, in whatever order the tasks of the symbols of the universe
  complete (one worker or several), the two ranked lists are the same, in order and in
  values, as when they complete in the order of the universe: the collected results are
  sorted by the rank of their symbol before they are ranked, and the scan ends with the
  two lists, not with an exception.
\<close>

theorem run_scan_any_completion_order:
  assumes "mset completed = mset coins_to_analyze"
  shows "run_scan depth_of trades_of coins_to_analyze completed =
           run_scan depth_of trades_of coins_to_analyze coins_to_analyze \<and>
         (\<exists>ranked shorts longs.
            sort_by_rank coins_to_analyze (collect_results depth_of trades_of completed) =
              Inr ranked \<and>
            sorted (map (\<lambda>x. first_index coins_to_analyze (coin x)) ranked) \<and>
            display_trade_setups ranked = Inr (shorts, longs) \<and>
            run_scan depth_of trades_of coins_to_analyze completed = Inr (shorts, longs))"
proof -
  let ?d1 = "collect_results depth_of trades_of completed"
  let ?d2 = "collect_results depth_of trades_of coins_to_analyze"
  let ?k = "\<lambda>x. first_index coins_to_analyze (coin x)"
  have m: "mset ?d1 = mset ?d2"
    using assms by (rule collect_results_mset)
  from assms have sc: "set completed = set coins_to_analyze"
    by (rule mset_eq_setD)
  have inj: "inj_on ?k (set ?d1)"
  proof (rule inj_onI)
    fix x y
    assume x: "x \<in> set ?d1" and y: "y \<in> set ?d1" and eq: "?k x = ?k y"
    from collect_results_coin [OF x] sc have "coin x \<in> set coins_to_analyze" by simp
    then have ceq: "coin x = coin y" using eq by (rule first_index_inj)
    note cx = collect_results_coin [OF x, THEN conjunct2]
    note cy = collect_results_coin [OF y, THEN conjunct2]
    from cx cy ceq show "x = y" by (metis sum.inject(2))
  qed
  have sk: "sort_key ?k ?d1 = sort_key ?k ?d2"
    by (rule sort_key_inj_key_eq [OF _ inj]) (simp_all add: m)
  have r1: "sort_by_rank coins_to_analyze ?d1 = Inr (sort_key ?k ?d1)"
    by (rule sort_by_rank_Inr) (simp add: sc)
  have r2: "sort_by_rank coins_to_analyze ?d2 = Inr (sort_key ?k ?d2)"
    by (rule sort_by_rank_Inr) simp
  obtain shorts longs where d: "display_trade_setups (sort_key ?k ?d1) = Inr (shorts, longs)"
    using display_trade_setups_total by blast
  have "run_scan depth_of trades_of coins_to_analyze completed =
        run_scan depth_of trades_of coins_to_analyze coins_to_analyze"
    by (simp add: run_scan_def r1 r2 sk)
  moreover have "sorted (map ?k (sort_key ?k ?d1))"
    by (rule sorted_sort_key)
  moreover have "run_scan depth_of trades_of coins_to_analyze completed = Inr (shorts, longs)"
    by (simp add: run_scan_def r1 d)
  ultimately show ?thesis
    using r1 d by blast
qed

text \<open>Two symbols whose tasks complete in the opposite order: both are potential shorts
  with the same key, and the table lists them in the order of the universe.\<close>

theorem run_scan_any_completion_order_witness:
  "mset [''BUSDT'', ''AUSDT''] = mset [''AUSDT'', ''BUSDT''] \<and>
   run_scan one_bid one_taker_sell [''AUSDT'', ''BUSDT''] [''BUSDT'', ''AUSDT''] =
   run_scan one_bid one_taker_sell [''AUSDT'', ''BUSDT''] [''AUSDT'', ''BUSDT''] \<and>
   map coin (fst (projr
     (run_scan one_bid one_taker_sell [''AUSDT'', ''BUSDT''] [''BUSDT'', ''AUSDT'']))) =
     [''AUSDT'', ''BUSDT'']"
proof -
  have h: "mset [''BUSDT'', ''AUSDT''] = mset [''AUSDT'', ''BUSDT'']"
    by simp
  have r: "map coin (fst (projr
     (run_scan one_bid one_taker_sell [''AUSDT'', ''BUSDT''] [''AUSDT'', ''BUSDT'']))) =
     [''AUSDT'', ''BUSDT'']"
    by (simp add: scan_defs one_bid_def one_taker_sell_def)
  from run_scan_any_completion_order [OF h, of one_bid one_taker_sell]
  have "run_scan one_bid one_taker_sell [''AUSDT'', ''BUSDT''] [''BUSDT'', ''AUSDT''] =
        run_scan one_bid one_taker_sell [''AUSDT'', ''BUSDT''] [''AUSDT'', ''BUSDT'']"
    by (rule conjunct1)
  with h r show ?thesis by simp
qed

subsection \<open>C6: the two filters are disjoint and exclude the boundary\<close>

text \<open>
  Claim C6: no record of metrics satisfies both the filter of the potential shorts and
  the filter of the potential longs; a record whose limit ratio is 1 or whose market
  ratio is 1 satisfies neither; so the two ranked lists have no record in common and
  hold no record with a ratio equal to 1.
\<close>

theorem short_long_filters_exclusive:
  "\<not> (potential_short c \<and> potential_long c) \<and>
   (limit_bs_ratio c = Fin 1 \<or> market_bs_ratio c = Fin 1 \<longrightarrow>
      \<not> potential_short c \<and> \<not> potential_long c) \<and>
   (\<forall>shorts longs. display_trade_setups data = Inr (shorts, longs) \<longrightarrow>
      set shorts \<inter> set longs = {} \<and>
      (\<forall>x \<in> set shorts \<union> set longs.
         limit_bs_ratio x \<noteq> Fin 1 \<and> market_bs_ratio x \<noteq> Fin 1))"
proof -
  have "set shorts \<inter> set longs = {} \<and>
      (\<forall>x \<in> set shorts \<union> set longs. limit_bs_ratio x \<noteq> Fin 1 \<and> market_bs_ratio x \<noteq> Fin 1)"
    if d: "display_trade_setups data = Inr (shorts, longs)" for shorts longs
  proof -
    obtain cs where cs: "add_ratios_all data = Inr cs"
      using add_ratios_all_total by blast
    from d display_trade_setups_Inr [OF cs]
    have s: "set shorts = {x \<in> set cs. potential_short x}"
      and l: "set longs = {x \<in> set cs. potential_long x}"
      by (auto simp: set_list_sort)
    show ?thesis
      unfolding s l using not_short_and_long boundary_excluded by blast
  qed
  then show ?thesis
    using not_short_and_long [of c] boundary_excluded [of c] by blast
qed

text \<open>A record with limit ratio 1 and market ratio 2 is in neither list.\<close>

theorem short_long_filters_exclusive_witness:
  "limit_bs_ratio boundary_coin = Fin 1 \<and>
   \<not> potential_short boundary_coin \<and> \<not> potential_long boundary_coin \<and>
   display_trade_setups [boundary_coin] = Inr ([], [])"
proof -
  have d: "display_trade_setups [boundary_coin] = Inr ([], [])"
    by (simp add: scan_defs boundary_coin_def)
  have l: "limit_bs_ratio boundary_coin = Fin 1"
    by (simp add: boundary_coin_def)
  from short_long_filters_exclusive [of boundary_coin "[boundary_coin]"] l d
  show ?thesis by simp
qed

subsection \<open>C7: the ranking sorts are stable\<close>

text \<open>
  Claim C7: for every list of metrics the added ratios are computed without an error and
  in the order of the input, the table of potential shorts is a rearrangement of the
  records that pass its filter, no record in it has a greater \<open>limit_market_ratio\<close> than
  one before it, and the records with one and the same \<open>limit_market_ratio\<close> stand in it
  in the order of the input; likewise for the table of potential longs and
  \<open>market_limit_ratio\<close>.
\<close>

theorem ranking_sorts_stable:
  "\<exists>cs shorts longs.
     add_ratios_all data = Inr cs \<and> map coin cs = map coin data \<and>
     display_trade_setups data = Inr (shorts, longs) \<and>
     mset shorts = mset (filter potential_short cs) \<and>
     mset longs = mset (filter potential_long cs) \<and>
     sorted_wrt (\<lambda>a b. \<not> fl_lt (limit_market_ratio a) (limit_market_ratio b)) shorts \<and>
     sorted_wrt (\<lambda>a b. \<not> fl_lt (market_limit_ratio a) (market_limit_ratio b)) longs \<and>
     (\<forall>k. filter (\<lambda>x. limit_market_ratio x = k) shorts =
          filter (\<lambda>x. limit_market_ratio x = k) (filter potential_short cs)) \<and>
     (\<forall>k. filter (\<lambda>x. market_limit_ratio x = k) longs =
          filter (\<lambda>x. market_limit_ratio x = k) (filter potential_long cs))"
proof -
  obtain cs where cs: "add_ratios_all data = Inr cs"
    using add_ratios_all_total by blast
  note nn = ranked_keys_not_NaN [OF cs]
  show ?thesis
    using cs add_ratios_all_coins [OF cs] display_trade_setups_Inr [OF cs]
      sorted_list_sort_desc [OF nn(1)] sorted_list_sort_desc [OF nn(2)]
    by (simp add: mset_list_sort list_sort_stable [of fl_lt, OF fl_lt_irrefl])
qed

text \<open>Of three potential shorts the two with the key \<open>+\<infinity>\<close> come first, in their input
  order.\<close>

theorem ranking_sorts_stable_witness:
  "map coin tied_shorts = [''CUSDT'', ''AUSDT'', ''BUSDT''] \<and>
   map coin (fst (projr (display_trade_setups tied_shorts))) =
     [''AUSDT'', ''BUSDT'', ''CUSDT''] \<and>
   map limit_market_ratio (fst (projr (display_trade_setups tied_shorts))) =
     [PInf, PInf, Fin 4]"
  using ranking_sorts_stable [of tied_shorts]
  by (simp add: scan_defs tied_shorts_def)

subsection \<open>C8: candles that cannot be read\<close>


subsection \<open>C9: symbols of the universe\<close>

text \<open>
  Claim C9 says that each symbol occurs at most once in the universe, also when a symbol
  token appears more than once among the candidates. The matching loop does not look for
  repetitions: two candidates with the token of the same tradable symbol are both in the
  universe.
\<close>

theorem duplicate_candidate_twice_in_universe:
  "match_coins 100 {''BTCUSDT''} btc_twice = [''BTCUSDT'', ''BTCUSDT''] \<and>
   \<not> distinct (match_coins 100 {''BTCUSDT''} btc_twice)"
  by (simp add: btc_twice_def universe_defs)

text \<open>
  C9 as amended: for every candidate list whose venue identifiers are pairwise different
  and every set of tradable identifiers, each symbol occurs at most once in the
  universe.
\<close>

theorem match_coins_distinct:
  assumes "distinct (map binance_symbol_of cands)"
  shows "distinct (match_coins target S cands)"
proof -
  obtain m where "match_coins target S cands = take m (matches S cands)"
    using match_loop_some_take [of target S "[]" cands] by (auto simp: match_coins_def)
  with assms show ?thesis by simp
qed

text \<open>Three candidates with different tokens.\<close>

theorem match_coins_distinct_witness:
  "distinct (map binance_symbol_of btc_eth) \<and>
   distinct (match_coins 100 {''BTCUSDT'', ''ETHUSDT''} btc_eth)"
proof -
  have d: "distinct (map binance_symbol_of btc_eth)"
    by (simp add: btc_eth_def binance_symbol_of_def str_upper_def upper_char_def)
  from d match_coins_distinct [OF d, of 100 "{''BTCUSDT'', ''ETHUSDT''}"]
  show ?thesis by blast
qed

subsection \<open>C10: the rules are strict\<close>

text \<open>
  Claim C10: every rule compares strictly. For every window in which the current candle
  closes where it opens, or the left candle does, or the middle high equals the left
  high, or the top of the middle body equals the left high, or the middle low equals the
  left open, or the current high equals the middle high, or the two bodies have the same
  size, \<^verbatim>\<open>check_conditions\<close> returns without an alert.
\<close>

theorem strict_rules_reject_equality:
  assumes "c_close (w_current w) = c_open (w_current w) \<or>
           c_close (w_left w) = c_open (w_left w) \<or>
           c_high (w_middle w) = c_high (w_left w) \<or>
           max (c_open (w_middle w)) (c_close (w_middle w)) = c_high (w_left w) \<or>
           c_low (w_middle w) = c_open (w_left w) \<or>
           c_high (w_current w) = c_high (w_middle w) \<or>
           \<bar>c_open (w_middle w) - c_close (w_middle w)\<bar> = \<bar>c_open (w_left w) - c_close (w_left w)\<bar>"
  shows "check_conditions symbol (Some (klines_of older ts rest w)) = Inr None"
  using assms
  unfolding check_conditions_klines_of seven_rules_def rule_defs
  by auto

text \<open>The confirmed window with a current candle that closes where it opens: the other
  six rules hold, and there is no alert.\<close>

theorem strict_rules_reject_equality_witness:
  "c_close (w_current doji_window) = c_open (w_current doji_window) \<and>
   left_is_bullish doji_window \<and> middle_high_exceeds_left_high doji_window \<and>
   middle_body_top_below_left_high doji_window \<and> middle_low_above_left_open doji_window \<and>
   current_high_below_middle_high doji_window \<and>
   middle_body_smaller_than_left_body doji_window \<and>
   check_conditions ''BTCUSDT'' (Some (klines_of [] (Numeric 0) [] doji_window)) = Inr None"
proof -
  have e: "c_close (w_current doji_window) = c_open (w_current doji_window)"
    by (simp add: doji_window_def)
  have "check_conditions ''BTCUSDT'' (Some (klines_of [] (Numeric 0) [] doji_window)) = Inr None"
    by (rule strict_rules_reject_equality) (simp add: e)
  with e show ?thesis
    by (simp add: rule_defs doji_window_def)
qed

end
